theory Spec2Isabelle
  imports Main "HOL-Library.Monad_Syntax"
begin

section \<open>Go integers and their decimal text\<close>

text \<open>
  Go's \<open>int64\<close> is modelled as an \<open>int\<close> that every arithmetic step brings back into
  the two's complement range: a sum or product that leaves the range wraps around.
\<close>

definition int64 :: "int \<Rightarrow> int" where
  "int64 x = (x + 2 ^ 63) mod 2 ^ 64 - 2 ^ 63"

definition in_int64 :: "int \<Rightarrow> bool" where
  "in_int64 x = (- (2 ^ 63) \<le> x \<and> x < 2 ^ 63)"

text \<open>Go's integer division \<open>/\<close> truncates towards zero.\<close>

definition go_quo :: "int \<Rightarrow> int \<Rightarrow> int" where
  "go_quo a b = sgn a * sgn b * (\<bar>a\<bar> div \<bar>b\<bar>)"

definition isDigit :: "char \<Rightarrow> bool" where
  "isDigit c = (c \<in> set ''0123456789'')"

definition digit_val :: "char \<Rightarrow> int" where
  "digit_val c = of_char c - 48"

definition digit_char :: "int \<Rightarrow> char" where
  "digit_char d = char_of (48 + d)"

text \<open>The decimal digits of a number that is not negative.\<close>

function digits10 :: "int \<Rightarrow> string" where
  "digits10 n = (if n < 10 then [digit_char n] else digits10 (n div 10) @ [digit_char (n mod 10)])"
  by pat_completeness auto
termination
  by (relation "measure nat") auto

declare digits10.simps [simp del]

text \<open>\<open>strconv.FormatInt(i, 10)\<close>.\<close>

definition FormatInt :: "int \<Rightarrow> string" where
  "FormatInt i = (if i < 0 then CHR ''-'' # digits10 (- i) else digits10 i)"

section \<open>The time package: instants, Unix, UnixNano, Parse with the RFC3339 layout\<close>

text \<open>
  An instant is its count of seconds since 1970-01-01T00:00:00Z and the nanoseconds
  within that second (0 to 999999999). The location of a \<open>time.Time\<close> plays no part in
  the values the program reads and is left out.
\<close>

record Time =
  sec :: int
  nsec :: int

text \<open>
  \<open>Time.UnixNano\<close> computes \<open>sec * 1e9 + nsec\<close> in \<open>int64\<close>; outside the years 1678 to
  2262 the product wraps.
\<close>

definition UnixNano :: "Time \<Rightarrow> int" where
  "UnixNano t = int64 (int64 (sec t * 1000000000) + nsec t)"

text \<open>\<open>time.Unix(sec, nsec)\<close>: a nanosecond count outside [0, 1e9) is carried into the seconds.\<close>

definition time_Unix :: "int \<Rightarrow> int \<Rightarrow> Time" where
  "time_Unix s ns =
     (if ns < 0 \<or> ns \<ge> 1000000000 then
        (let n = go_quo ns 1000000000;
             s1 = int64 (s + n);
             ns1 = int64 (ns - int64 (n * 1000000000))
         in if ns1 < 0 then \<lparr>sec = int64 (s1 - 1), nsec = int64 (ns1 + 1000000000)\<rparr>
            else \<lparr>sec = s1, nsec = ns1\<rparr>)
      else \<lparr>sec = s, nsec = ns\<rparr>)"

definition isLeap :: "int \<Rightarrow> bool" where
  "isLeap year = (year mod 4 = 0 \<and> (year mod 100 \<noteq> 0 \<or> year mod 400 = 0))"

definition daysIn :: "int \<Rightarrow> int \<Rightarrow> int" where
  "daysIn m year =
     (if m = 2 then (if isLeap year then 29 else 28)
      else if m = 4 \<or> m = 6 \<or> m = 9 \<or> m = 11 then 30 else 31)"

text \<open>Days of a non-leap year that precede the first of month \<open>m\<close> (1 to 12).\<close>

definition daysBefore :: "int \<Rightarrow> int" where
  "daysBefore m = [0, 31, 59, 90, 120, 151, 181, 212, 243, 273, 304, 334] ! nat (m - 1)"

text \<open>
  \<open>time.Date(year, month, day, hour, min, sec, nsec, UTC)\<close> for fields that are in
  range, which is how \<open>time.Parse\<close> calls it (it has checked each field before): the
  days of the proleptic Gregorian calendar since 1970-01-01, then the time of day.
\<close>

definition Date :: "int \<Rightarrow> int \<Rightarrow> int \<Rightarrow> int \<Rightarrow> int \<Rightarrow> int \<Rightarrow> int \<Rightarrow> Time" where
  "Date year m day hour mi s ns =
     (let y = year - 1;
          d = 365 * y + y div 4 - y div 100 + y div 400
              + daysBefore m + (if isLeap year \<and> m \<ge> 3 then 1 else 0)
              + day - 1 - 719162
      in \<lparr>sec = d * 86400 + (hour * 3600 + mi * 60 + s), nsec = ns\<rparr>)"

text \<open>\<open>getnum(s, fixed)\<close>: one or two leading digits; exactly two when \<open>fixed\<close>.\<close>

definition getnum :: "string \<Rightarrow> bool \<Rightarrow> (int \<times> string) option" where
  "getnum s fixed =
     (case s of
        [] \<Rightarrow> None
      | c0 # r0 \<Rightarrow>
          if \<not> isDigit c0 then None
          else (case r0 of
                  [] \<Rightarrow> if fixed then None else Some (digit_val c0, r0)
                | c1 # r1 \<Rightarrow>
                    if \<not> isDigit c1 then (if fixed then None else Some (digit_val c0, r0))
                    else Some (digit_val c0 * 10 + digit_val c1, r1)))"

text \<open>The value of a run of decimal digits, most significant first.\<close>

definition atoi_digits :: "string \<Rightarrow> int" where
  "atoi_digits ds = foldl (\<lambda>acc c. acc * 10 + digit_val c) 0 ds"

text \<open>
  \<open>parseNanoseconds(value, n)\<close> on the digits that follow the separator: at most nine
  digits count, and fewer than nine are scaled up.
\<close>

definition parseNanoseconds :: "string \<Rightarrow> int" where
  "parseNanoseconds ds = (let d9 = take 9 ds in atoi_digits d9 * 10 ^ (9 - length d9))"

text \<open>One literal byte of the layout (\<open>skip\<close> with a one-byte prefix that is no space).\<close>

definition skip1 :: "char \<Rightarrow> string \<Rightarrow> string option" where
  "skip1 c s = (case s of [] \<Rightarrow> None | x # r \<Rightarrow> if x = c then Some r else None)"

text \<open>
  The zone of the layout element \<open>Z07:00\<close>: \<open>Z\<close>, or a sign, two digits, a colon and two
  digits. The result is the offset in seconds east of UTC and the text left over.
\<close>

definition parse_zone :: "string \<Rightarrow> (int \<times> string) option" where
  "parse_zone s =
     (case s of
        [] \<Rightarrow> None
      | c # r \<Rightarrow>
          if c = CHR ''Z'' then Some (0, r)
          else if length s < 6 then None
          else if s ! 3 \<noteq> CHR '':'' then None
          else (case getnum (take 2 r) True of
                  None \<Rightarrow> None
                | Some (hr, _) \<Rightarrow>
                    (case getnum (take 2 (drop 4 s)) True of
                       None \<Rightarrow> None
                     | Some (mm, _) \<Rightarrow>
                         if hr > 24 \<or> mm > 60 then None
                         else if c = CHR ''+'' then Some ((hr * 60 + mm) * 60, drop 6 s)
                         else if c = CHR ''-'' then Some (- ((hr * 60 + mm) * 60), drop 6 s)
                         else None)))"

text \<open>
  \<open>time.Parse(time.RFC3339, s)\<close>, the layout \<open>2006-01-02T15:04:05Z07:00\<close> read element by
  element as the package's layout-driven parser does: a four-digit year, two-digit month
  and day, an hour of one or two digits, two-digit minute and second, an optional
  fraction after a period or comma although the layout has none, and the zone. The day
  is checked against the month once everything is read, and no text may be left over.
  \<open>None\<close> stands for the returned error.
\<close>

definition require :: "bool \<Rightarrow> unit option" where
  "require b = (if b then Some () else None)"

text \<open>The optional fraction after the seconds: its digits, and the text after them.\<close>

definition parse_fraction :: "string \<Rightarrow> string \<times> string" where
  "parse_fraction s =
     (case s of
        c # d # r \<Rightarrow>
          if (c = CHR ''.'' \<or> c = CHR '','') \<and> isDigit d
          then (takeWhile isDigit (d # r), dropWhile isDigit (d # r))
          else ([], s)
      | _ \<Rightarrow> ([], s))"

definition time_Parse_RFC3339 :: "string \<Rightarrow> Time option" where
  "time_Parse_RFC3339 s0 = do {
     require (4 \<le> length s0 \<and> list_all isDigit (take 4 s0));
     let year = atoi_digits (take 4 s0);
     s1 \<leftarrow> skip1 (CHR ''-'') (drop 4 s0);
     (month, s2) \<leftarrow> getnum s1 True;
     require (0 < month \<and> month \<le> 12);
     s3 \<leftarrow> skip1 (CHR ''-'') s2;
     (day, s4) \<leftarrow> getnum s3 True;
     s5 \<leftarrow> skip1 (CHR ''T'') s4;
     (hour, s6) \<leftarrow> getnum s5 False;
     require (hour < 24);
     s7 \<leftarrow> skip1 (CHR '':'') s6;
     (mi, s8) \<leftarrow> getnum s7 True;
     require (mi < 60);
     s9 \<leftarrow> skip1 (CHR '':'') s8;
     (se, s10) \<leftarrow> getnum s9 True;
     require (se < 60);
     let (frac, s11) = parse_fraction s10;
     let ns = (if frac = [] then 0 else parseNanoseconds frac);
     (zoneOffset, s12) \<leftarrow> parse_zone s11;
     require (s12 = []);
     require (1 \<le> day \<and> day \<le> daysIn month year);
     let t = Date year month day hour mi se ns;
     Some (t\<lparr>sec := sec t - zoneOffset\<rparr>)
   }"

section \<open>The encoding/json package: values and the reader\<close>

text \<open>
  A JSON value as the decoder sees it. A number keeps its literal, since what it becomes
  depends on the Go type it is stored into; a string is held decoded, as bytes.
\<close>

datatype json =
    JNull
  | JBool bool
  | JNumber string
  | JString string
  | JArray "json list"
  | JObject "(string \<times> json) list"

datatype json_error =
    SyntaxError string
  | UnmarshalTypeError string string
  | MarshalerError string
  | UnsupportedValueError string

definition byte :: "char \<Rightarrow> int" where
  "byte c = of_char c"

definition isSpace :: "char \<Rightarrow> bool" where
  "isSpace c = (c = CHR 0x20 \<or> c = CHR 0x09 \<or> c = CHR 0x0D \<or> c = CHR 0x0A)"

definition skip_ws :: "string \<Rightarrow> string" where
  "skip_ws s = dropWhile isSpace s"

definition isHex :: "char \<Rightarrow> bool" where
  "isHex c = (c \<in> set ''0123456789abcdefABCDEF'')"

definition hex_val :: "char \<Rightarrow> int" where
  "hex_val c =
     (if isDigit c then byte c - 48
      else if byte c \<ge> 97 then byte c - 87
      else byte c - 55)"

text \<open>
  The scanner inside a string literal, after the opening quote: the raw text up to the
  closing quote and what follows it. Bytes below 0x20 are refused; a backslash is
  followed by one of the escape letters, and \<open>u\<close> by four hexadecimal digits.
\<close>

fun scan_string :: "string \<Rightarrow> (string \<times> string) option" where
  "scan_string [] = None"
| "scan_string [c] = (if c = CHR 0x22 then Some ([], []) else None)"
| "scan_string (c # e # es) =
     (if c = CHR 0x22 then Some ([], e # es)
      else if c = CHR 0x5C then
        (if e \<in> set ''bfnrt/'' \<or> e = CHR 0x22 \<or> e = CHR 0x5C
           \<or> (e = CHR ''u'' \<and> 4 \<le> length es \<and> list_all isHex (take 4 es))
         then map_option (\<lambda>(raw, rest). (c # e # raw, rest)) (scan_string es)
         else None)
      else if byte c < 32 then None
      else map_option (\<lambda>(raw, rest). (c # raw, rest)) (scan_string (e # es)))"

text \<open>
  \<open>utf8.DecodeRune\<close>, as far as the decoder and the encoder need it: the length of the
  well-formed UTF-8 sequence at the head of the text, or 0 when the first byte starts
  none.
\<close>

definition in_range :: "int \<Rightarrow> int \<Rightarrow> string \<Rightarrow> nat \<Rightarrow> bool" where
  "in_range lo hi s i = (i < length s \<and> lo \<le> byte (s ! i) \<and> byte (s ! i) \<le> hi)"

definition utf8_len :: "string \<Rightarrow> nat" where
  "utf8_len s =
     (case s of
        [] \<Rightarrow> 0
      | c # _ \<Rightarrow>
          let b = byte c in
          if b < 128 then 1
          else if 194 \<le> b \<and> b \<le> 223 then (if in_range 128 191 s 1 then 2 else 0)
          else if 224 \<le> b \<and> b \<le> 239 then
            (if in_range (if b = 224 then 160 else 128) (if b = 237 then 159 else 191) s 1
                \<and> in_range 128 191 s 2 then 3 else 0)
          else if 240 \<le> b \<and> b \<le> 244 then
            (if in_range (if b = 240 then 144 else 128) (if b = 244 then 143 else 191) s 1
                \<and> in_range 128 191 s 2 \<and> in_range 128 191 s 3 then 4 else 0)
          else 0)"

text \<open>The three bytes of U+FFFD, which stands in for ill-formed input.\<close>

definition replacement_char :: string where
  "replacement_char = [char_of (239::int), char_of (191::int), char_of (189::int)]"

text \<open>\<open>utf8.EncodeRune\<close> for a code point; a surrogate or a value past U+10FFFF gives U+FFFD.\<close>

definition EncodeRune :: "int \<Rightarrow> string" where
  "EncodeRune r =
     (if r < 128 then [char_of r]
      else if r < 2048 then [char_of (192 + r div 64), char_of (128 + r mod 64)]
      else if (55296 \<le> r \<and> r \<le> 57343) \<or> r > 1114111 then replacement_char
      else if r < 65536 then
        [char_of (224 + r div 4096), char_of (128 + r div 64 mod 64), char_of (128 + r mod 64)]
      else
        [char_of (240 + r div 262144), char_of (128 + r div 4096 mod 64),
         char_of (128 + r div 64 mod 64), char_of (128 + r mod 64)])"

text \<open>\<open>getu4\<close>: the code unit of a leading \<open>\uXXXX\<close>, if the text starts with one.\<close>

definition getu4 :: "string \<Rightarrow> int option" where
  "getu4 s =
     (if 6 \<le> length s \<and> s ! 0 = CHR 0x5C \<and> s ! 1 = CHR ''u''
         \<and> list_all isHex (take 4 (drop 2 s))
      then Some (foldl (\<lambda>acc c. acc * 16 + hex_val c) 0 (take 4 (drop 2 s)))
      else None)"

definition unescape :: "char \<Rightarrow> char" where
  "unescape e =
     (if e = CHR ''b'' then CHR 0x08
      else if e = CHR ''f'' then CHR 0x0C
      else if e = CHR ''n'' then CHR 0x0A
      else if e = CHR ''r'' then CHR 0x0D
      else if e = CHR ''t'' then CHR 0x09
      else e)"

text \<open>
  \<open>unquote\<close> on the raw text of a scanned literal: escapes are resolved, a surrogate
  pair of \<open>\u\<close> escapes becomes one code point and a lone surrogate U+FFFD, and a byte
  that is not well-formed UTF-8 is replaced by U+FFFD.
\<close>

fun unquote :: "string \<Rightarrow> string" where
  "unquote [] = []"
| "unquote (c # cs) =
     (if c = CHR 0x5C then
        (case cs of
           [] \<Rightarrow> []
         | e # es \<Rightarrow>
             if e = CHR ''u'' then
               (case getu4 (c # cs) of
                  None \<Rightarrow> []
                | Some rr \<Rightarrow>
                    if 55296 \<le> rr \<and> rr \<le> 57343 then
                      (case getu4 (drop 4 es) of
                         Some rr1 \<Rightarrow>
                           if rr < 56320 \<and> 56320 \<le> rr1 \<and> rr1 \<le> 57343
                           then EncodeRune ((rr - 55296) * 1024 + (rr1 - 56320) + 65536)
                                @ unquote (drop 10 es)
                           else replacement_char @ unquote (drop 4 es)
                       | None \<Rightarrow> replacement_char @ unquote (drop 4 es))
                    else EncodeRune rr @ unquote (drop 4 es))
             else unescape e # unquote es)
      else if byte c < 128 then c # unquote cs
      else (let n = utf8_len (c # cs)
            in if n = 0 then replacement_char @ unquote cs
               else c # take (n - 1) cs @ unquote (drop (n - 1) cs)))"

text \<open>
  A number literal at the head of the text: an optional minus, an integer part without a
  superfluous leading zero, an optional fraction and an optional exponent.
\<close>

definition scan_digits :: "string \<Rightarrow> (string \<times> string) option" where
  "scan_digits s =
     (let ds = takeWhile isDigit s in if ds = [] then None else Some (ds, dropWhile isDigit s))"

definition scan_number :: "string \<Rightarrow> (string \<times> string) option" where
  "scan_number s0 = do {
     let (sign, s1) = (case s0 of c # r \<Rightarrow> if c = CHR ''-'' then ([c], r) else ([], s0) | [] \<Rightarrow> ([], s0));
     (ip, s2) \<leftarrow> (case s1 of
                    c # r \<Rightarrow> if c = CHR ''0'' then Some ([c], r) else scan_digits s1
                  | [] \<Rightarrow> None);
     (fp, s3) \<leftarrow> (case s2 of
                    c # r \<Rightarrow>
                      if c = CHR ''.'' then map_option (\<lambda>(ds, r'). (c # ds, r')) (scan_digits r)
                      else Some ([], s2)
                  | [] \<Rightarrow> Some ([], s2));
     (ep, s4) \<leftarrow> (case s3 of
                    c # r \<Rightarrow>
                      if c = CHR ''e'' \<or> c = CHR ''E'' then
                        (case r of
                           d # r' \<Rightarrow>
                             if d = CHR ''+'' \<or> d = CHR ''-''
                             then map_option (\<lambda>(ds, r''). (c # d # ds, r'')) (scan_digits r')
                             else map_option (\<lambda>(ds, r''). (c # ds, r'')) (scan_digits r)
                         | [] \<Rightarrow> None)
                      else Some ([], s3)
                  | [] \<Rightarrow> Some ([], s3));
     Some (sign @ ip @ fp @ ep, s4)
   }"

definition scan_literal :: "string \<Rightarrow> json \<Rightarrow> string \<Rightarrow> (json \<times> string) option" where
  "scan_literal word v s =
     (if take (length word) s = word then Some (v, drop (length word) s) else None)"

text \<open>
  The reader. Its first argument bounds the number of nested calls (each call consumes
  at least one byte, so the length of the text is enough); the second is the nesting
  depth of arrays and objects, which the scanner limits to 10000.
\<close>

fun parse_value :: "nat \<Rightarrow> int \<Rightarrow> string \<Rightarrow> (json \<times> string) option"
  and parse_elems :: "nat \<Rightarrow> int \<Rightarrow> string \<Rightarrow> (json list \<times> string) option"
  and parse_members :: "nat \<Rightarrow> int \<Rightarrow> string \<Rightarrow> ((string \<times> json) list \<times> string) option"
where
  "parse_value 0 d s = None"
| "parse_value (Suc n) d s =
     (case s of
        [] \<Rightarrow> None
      | c # cs \<Rightarrow>
          if c = CHR ''{'' then
            (if d \<ge> 10000 then None
             else (case skip_ws cs of
                     [] \<Rightarrow> None
                   | x # xs \<Rightarrow>
                       if x = CHR ''}'' then Some (JObject [], xs)
                       else map_option (\<lambda>(ms, r). (JObject ms, r)) (parse_members n (d + 1) (x # xs))))
          else if c = CHR ''['' then
            (if d \<ge> 10000 then None
             else (case skip_ws cs of
                     [] \<Rightarrow> None
                   | x # xs \<Rightarrow>
                       if x = CHR '']'' then Some (JArray [], xs)
                       else map_option (\<lambda>(vs, r). (JArray vs, r)) (parse_elems n (d + 1) (x # xs))))
          else if c = CHR 0x22 then
            map_option (\<lambda>(raw, r). (JString (unquote raw), r)) (scan_string cs)
          else if c = CHR ''t'' then scan_literal ''true'' (JBool True) s
          else if c = CHR ''f'' then scan_literal ''false'' (JBool False) s
          else if c = CHR ''n'' then scan_literal ''null'' JNull s
          else map_option (\<lambda>(lit, r). (JNumber lit, r)) (scan_number s))"
| "parse_elems 0 d s = None"
| "parse_elems (Suc n) d s =
     (case parse_value n d s of
        None \<Rightarrow> None
      | Some (v, r) \<Rightarrow>
          (case skip_ws r of
             [] \<Rightarrow> None
           | x # xs \<Rightarrow>
               if x = CHR '','' then
                 map_option (\<lambda>(vs, r'). (v # vs, r')) (parse_elems n d (skip_ws xs))
               else if x = CHR '']'' then Some ([v], xs)
               else None))"
| "parse_members 0 d s = None"
| "parse_members (Suc n) d s =
     (case s of
        [] \<Rightarrow> None
      | q # qs \<Rightarrow>
          if q \<noteq> CHR 0x22 then None
          else (case scan_string qs of
                  None \<Rightarrow> None
                | Some (raw, r0) \<Rightarrow>
                    (case skip_ws r0 of
                       [] \<Rightarrow> None
                     | c # r1 \<Rightarrow>
                         if c \<noteq> CHR '':'' then None
                         else (case parse_value n d (skip_ws r1) of
                                 None \<Rightarrow> None
                               | Some (v, r2) \<Rightarrow>
                                   (case skip_ws r2 of
                                      [] \<Rightarrow> None
                                    | x # xs \<Rightarrow>
                                        if x = CHR '','' then
                                          map_option (\<lambda>(ms, r'). ((unquote raw, v) # ms, r'))
                                            (parse_members n d (skip_ws xs))
                                        else if x = CHR ''}'' then Some ([(unquote raw, v)], xs)
                                        else None)))))"

text \<open>
  \<open>checkValid\<close> followed by the value the decoder reads: one value, with white space
  before and after it and nothing else.
\<close>

definition json_parse :: "string \<Rightarrow> json_error + json" where
  "json_parse data =
     (case parse_value (Suc (length data)) 0 (skip_ws data) of
        None \<Rightarrow> Inl (SyntaxError ''invalid character or unexpected end of JSON input'')
      | Some (v, r) \<Rightarrow>
          if skip_ws r = [] then Inr v
          else Inl (SyntaxError ''invalid character after top-level value''))"

section \<open>The encoding/json package: storing a value into a Go variable\<close>

definition type_error :: "json \<Rightarrow> string \<Rightarrow> json_error" where
  "type_error j ty =
     UnmarshalTypeError
       (case j of
          JNull \<Rightarrow> ''null'' | JBool _ \<Rightarrow> ''bool'' | JNumber _ \<Rightarrow> ''number''
        | JString _ \<Rightarrow> ''string'' | JArray _ \<Rightarrow> ''array'' | JObject _ \<Rightarrow> ''object'')
       ty"

text \<open>
  Into a \<open>string\<close> variable holding \<open>old\<close>: a JSON string is stored, \<open>null\<close> leaves the
  variable as it is, anything else is a type error.
\<close>

definition store_string :: "json \<Rightarrow> string \<Rightarrow> json_error + string" where
  "store_string j old =
     (case j of JString s \<Rightarrow> Inr s | JNull \<Rightarrow> Inr old | _ \<Rightarrow> Inl (type_error j ''string''))"

text \<open>
  \<open>strconv.ParseInt(lit, 10, 64)\<close> on a JSON number literal: digits after an optional
  minus, and a value that fits 64 bits.
\<close>

definition ParseInt :: "string \<Rightarrow> int option" where
  "ParseInt lit =
     (let (neg, ds) = (case lit of c # r \<Rightarrow> if c = CHR ''-'' then (True, r) else (False, lit)
                                 | [] \<Rightarrow> (False, lit));
          v = (if neg then - atoi_digits ds else atoi_digits ds)
      in if ds \<noteq> [] \<and> list_all isDigit ds \<and> in_int64 v then Some v else None)"

text \<open>Into an \<open>int\<close> variable (64 bits wide).\<close>

definition store_int :: "json \<Rightarrow> int \<Rightarrow> json_error + int" where
  "store_int j old =
     (case j of
        JNumber lit \<Rightarrow>
          (case ParseInt lit of
             Some n \<Rightarrow> Inr n
           | None \<Rightarrow> Inl (UnmarshalTypeError (''number '' @ lit) ''int''))
      | JNull \<Rightarrow> Inr old
      | _ \<Rightarrow> Inl (type_error j ''int''))"

text \<open>
  Binary floating point is outside this development: the \<open>float32\<close> of \<open>EventVersion\<close>
  is a type parameter, and the three things the program needs of it are taken as given:
  \<open>strconv.ParseFloat(lit, 32)\<close> with its range check, the text the encoder prints (none
  for an infinity or a NaN), and the zero value.
\<close>

record 'f float32_lib =
  ParseFloat32 :: "string \<Rightarrow> 'f option"
  FormatFloat32 :: "'f \<Rightarrow> string option"
  zero32 :: 'f

definition store_float32 :: "'f float32_lib \<Rightarrow> json \<Rightarrow> 'f \<Rightarrow> json_error + 'f" where
  "store_float32 lib j old =
     (case j of
        JNumber lit \<Rightarrow>
          (case ParseFloat32 lib lit of
             Some x \<Rightarrow> Inr x
           | None \<Rightarrow> Inl (UnmarshalTypeError (''number '' @ lit) ''float32''))
      | JNull \<Rightarrow> Inr old
      | _ \<Rightarrow> Inl (type_error j ''float32''))"

text \<open>
  The decoder keeps the first type error it meets and goes on; it reports that error
  when the whole value has been read.
\<close>

definition saveError :: "json_error \<Rightarrow> json_error option \<Rightarrow> json_error option" where
  "saveError e saved = (case saved of None \<Rightarrow> Some e | Some e0 \<Rightarrow> Some e0)"

text \<open>
  The members of an object into a \<open>map[string]string\<close>: each key gets the string of its
  value, or the empty string when the value is \<open>null\<close> or of another type, which is
  a type error.
\<close>

fun store_map_members ::
  "(string \<times> json) list \<Rightarrow> (string \<rightharpoonup> string) \<Rightarrow> json_error option
     \<Rightarrow> (string \<rightharpoonup> string) \<times> json_error option" where
  "store_map_members [] m saved = (m, saved)"
| "store_map_members ((k, v) # ms) m saved =
     (case store_string v [] of
        Inr s \<Rightarrow> store_map_members ms (m(k \<mapsto> s)) saved
      | Inl e \<Rightarrow> store_map_members ms (m(k \<mapsto> [])) (saveError e saved))"

text \<open>\<open>json.Unmarshal(b, &messageAttr)\<close> for \<open>var messageAttr map[string]string\<close>.\<close>

definition json_Unmarshal_map :: "json \<Rightarrow> json_error + (string \<rightharpoonup> string)" where
  "json_Unmarshal_map j =
     (case j of
        JObject ms \<Rightarrow>
          (case store_map_members ms Map.empty None of
             (m, None) \<Rightarrow> Inr m
           | (m, Some e) \<Rightarrow> Inl e)
      | JNull \<Rightarrow> Inr Map.empty
      | _ \<Rightarrow> Inl (type_error j ''map[string]string''))"

text \<open>\<open>json.Unmarshal(b, &timestamp)\<close> for \<open>var timestamp string\<close>.\<close>

definition json_Unmarshal_string :: "json \<Rightarrow> json_error + string" where
  "json_Unmarshal_string j = store_string j []"

section \<open>The encoding/json package: the writer\<close>

definition hex_digit :: "int \<Rightarrow> char" where
  "hex_digit d = ''0123456789abcdef'' ! nat d"

text \<open>
  Bytes of a string that the writer copies as they are: printable ASCII without the
  quote, the backslash and, since \<open>json.Marshal\<close> escapes for HTML, the characters
  \<open><\<close>, \<open>>\<close> and \<open>&\<close>.
\<close>

definition htmlSafe :: "char \<Rightarrow> bool" where
  "htmlSafe c = (32 \<le> byte c \<and> byte c < 128 \<and> c \<notin> set [CHR 0x22, CHR 0x5C, CHR ''<'', CHR ''>'', CHR ''&''])"

fun appendString_body :: "string \<Rightarrow> string" where
  "appendString_body [] = []"
| "appendString_body (c # cs) =
     (if byte c < 128 then
        (if htmlSafe c then c # appendString_body cs
         else if c = CHR 0x5C \<or> c = CHR 0x22 then CHR 0x5C # c # appendString_body cs
         else if c = CHR 0x08 then CHR 0x5C # CHR ''b'' # appendString_body cs
         else if c = CHR 0x0C then CHR 0x5C # CHR ''f'' # appendString_body cs
         else if c = CHR 0x0A then CHR 0x5C # CHR ''n'' # appendString_body cs
         else if c = CHR 0x0D then CHR 0x5C # CHR ''r'' # appendString_body cs
         else if c = CHR 0x09 then CHR 0x5C # CHR ''t'' # appendString_body cs
         else [CHR 0x5C, CHR ''u'', CHR ''0'', CHR ''0'', hex_digit (byte c div 16), hex_digit (byte c mod 16)]
              @ appendString_body cs)
      else (let n = utf8_len (c # cs)
            in if n = 0 then CHR 0x5C # ''ufffd'' @ appendString_body cs
               else if take 3 (c # cs) = [CHR 0xE2, CHR 0x80, CHR 0xA8]
                 then CHR 0x5C # ''u2028'' @ appendString_body (drop 2 cs)
               else if take 3 (c # cs) = [CHR 0xE2, CHR 0x80, CHR 0xA9]
                 then CHR 0x5C # ''u2029'' @ appendString_body (drop 2 cs)
               else c # take (n - 1) cs @ appendString_body (drop (n - 1) cs)))"

text \<open>A Go string as a JSON string literal.\<close>

definition appendString :: "string \<Rightarrow> string" where
  "appendString s = CHR 0x22 # appendString_body s @ [CHR 0x22]"

text \<open>
  What the writer does with the bytes a \<open>MarshalJSON\<close> method returns: they must be one
  valid JSON value, or the whole \<open>Marshal\<close> fails. (The writer also strips white space
  and escapes for HTML inside them; the two methods of this program return neither.)
\<close>

definition marshaler_output :: "string \<Rightarrow> json_error + string" where
  "marshaler_output b =
     (case json_parse b of
        Inl e \<Rightarrow> Inl (MarshalerError ''invalid output of MarshalJSON'')
      | Inr _ \<Rightarrow> Inr b)"

section \<open>The repository: types and their JSON methods\<close>

text \<open>
  \<open>exitErrorf\<close> logs through \<open>log.Fatalf\<close>, which ends the process with status 1: a call
  does not return. A computation that can reach it has an outcome of its own.
\<close>

datatype 'a outcome = Returns 'a | Exits string

definition exitErrorf :: "string \<Rightarrow> 'a outcome" where
  "exitErrorf msg = Exits msg"

text \<open>\<open>type snsTimestamp int64\<close>\<close>

type_synonym snsTimestamp = int

text \<open>
  \<open>snsTimestamp.MarshalJSON\<close>: the stored number is read as a nanosecond count by
  \<open>time.Unix(0, ts)\<close>, turned back into nanoseconds and printed in decimal. The error
  it returns is always nil.
\<close>

definition snsTimestamp_MarshalJSON :: "snsTimestamp \<Rightarrow> json_error + string" where
  "snsTimestamp_MarshalJSON ts =
     (let timestamp = ts;
          millis = UnixNano (time_Unix 0 timestamp);
          b = FormatInt millis
      in Inr b)"

text \<open>
  \<open>snsTimestamp.UnmarshalJSON\<close>. The bytes it is handed are the text of one value of a
  document the decoder has already checked; the model hands it the value. A value that
  is no string is the error of \<open>json.Unmarshal\<close>; a string that \<open>time.Parse\<close> refuses ends
  the process; otherwise the nanosecond count is divided by \<open>int64(time.Millisecond)\<close>,
  which is 1000000.
\<close>

definition snsTimestamp_UnmarshalJSON :: "json \<Rightarrow> (json_error + snsTimestamp) outcome" where
  "snsTimestamp_UnmarshalJSON b =
     (case json_Unmarshal_string b of
        Inl err \<Rightarrow> Returns (Inl err)
      | Inr timestamp \<Rightarrow>
          (case time_Parse_RFC3339 timestamp of
             None \<Rightarrow> exitErrorf (''Error unmarshaling event timestamp '' @ timestamp)
           | Some t \<Rightarrow> Returns (Inr (go_quo (UnixNano t) 1000000))))"

record messageAttributes =
  Key :: string
  Value :: string

text \<open>\<open>messageAttributes.MarshalJSON\<close>: always the two bytes of an empty object.\<close>

definition messageAttributes_MarshalJSON :: "messageAttributes \<Rightarrow> json_error + string" where
  "messageAttributes_MarshalJSON m = (let b = ''{}'' in Inr b)"

text \<open>
  \<open>messageAttributes.UnmarshalJSON\<close>: the value is decoded into a \<open>map[string]string\<close>,
  whose error is returned; the map itself is dropped.
\<close>

definition messageAttributes_UnmarshalJSON :: "json \<Rightarrow> json_error + messageAttributes" where
  "messageAttributes_UnmarshalJSON b =
     (case json_Unmarshal_map b of
        Inl err \<Rightarrow> Inl err
      | Inr messageAttr \<Rightarrow> Inr \<lparr>Key = [], Value = []\<rparr>)"

text \<open>The struct \<open>sns\<close>; the pointer \<open>*messageAttributes\<close> is \<open>None\<close> when nil.\<close>

record sns =
  MessageAttributes :: "messageAttributes option"
  SigningCertURL :: string
  MessageID :: string
  Message :: string
  UnsubscribeURL :: string
  SnsType :: string
  SignatureVersion :: int
  Signature :: string
  Timestamp :: snsTimestamp
  TopicArn :: string

record 'f snsEvent =
  Sns :: sns
  EventVersion :: 'f
  EventSource :: string
  EventSubscriptionArn :: string

text \<open>The zero values of the two structs, as \<open>var event snsEvent\<close> declares them.\<close>

definition sns_zero :: sns where
  "sns_zero =
     \<lparr>MessageAttributes = None, SigningCertURL = [], MessageID = [], Message = [],
      UnsubscribeURL = [], SnsType = [], SignatureVersion = 0, Signature = [],
      Timestamp = 0, TopicArn = []\<rparr>"

definition snsEvent_zero :: "'f float32_lib \<Rightarrow> 'f snsEvent" where
  "snsEvent_zero lib =
     \<lparr>Sns = sns_zero, EventVersion = zero32 lib, EventSource = [], EventSubscriptionArn = []\<rparr>"

section \<open>Decoding a document into the structs\<close>

text \<open>
  A key of the document selects the field whose name it equals, or else the field whose
  name it equals once both are case-folded. Folding maps the ASCII letters to upper case
  and the two runes outside ASCII that fold to an ASCII letter (the Kelvin sign and the
  long s) to \<open>K\<close> and \<open>S\<close>; the field names of this program are ASCII, so no other rune
  can take part in a match.
\<close>

definition ascii_upper :: "char \<Rightarrow> char" where
  "ascii_upper c = (if 97 \<le> byte c \<and> byte c \<le> 122 then char_of (byte c - 32) else c)"

fun foldName :: "string \<Rightarrow> string" where
  "foldName [] = []"
| "foldName (c # cs) =
     (if take 3 (c # cs) = [CHR 0xE2, CHR 0x84, CHR 0xAA] then CHR ''K'' # foldName (drop 2 cs)
      else if take 2 (c # cs) = [CHR 0xC5, CHR 0xBF] then CHR ''S'' # foldName (drop 1 cs)
      else ascii_upper c # foldName cs)"

definition find_field :: "string \<Rightarrow> string list \<Rightarrow> string option" where
  "find_field key names =
     (if key \<in> set names then Some key
      else find (\<lambda>n. foldName n = foldName key) names)"

text \<open>The JSON names of the fields, from the struct tags, in the order of declaration.\<close>

definition sns_fields :: "string list" where
  "sns_fields =
     [''messageAttributes'', ''signingCertUrl'', ''messageId'', ''message'', ''unsubscribeUrl'',
      ''type'', ''signatureVersion'', ''signature'', ''timestamp'', ''topicArn'']"

definition snsEvent_fields :: "string list" where
  "snsEvent_fields = [''sns'', ''eventVersion'', ''eventSource'', ''eventSubscriptionArn'']"

text \<open>
  One member of the object that is decoded into a \<open>sns\<close>. The state is the struct so far
  and the type error saved so far. A member no field answers to is skipped. The two
  fields with an \<open>UnmarshalJSON\<close> method hand the value to it, and an error it returns
  stops the decoding at once; \<open>null\<close> for the pointer field sets it to nil without a
  call, while \<open>null\<close> for the timestamp is handed to the method like any other value.
\<close>

definition sns_member ::
  "string \<Rightarrow> json \<Rightarrow> sns \<times> json_error option \<Rightarrow> (json_error + sns \<times> json_error option) outcome" where
  "sns_member key v st =
     (case st of (r, saved) \<Rightarrow>
      (case find_field key sns_fields of
         None \<Rightarrow> Returns (Inr (r, saved))
       | Some f \<Rightarrow>
         if f = ''messageAttributes'' then
           (if v = JNull then Returns (Inr (r\<lparr>MessageAttributes := None\<rparr>, saved))
            else (case messageAttributes_UnmarshalJSON v of
                    Inl err \<Rightarrow> Returns (Inl err)
                  | Inr m \<Rightarrow> Returns (Inr (r\<lparr>MessageAttributes := Some m\<rparr>, saved))))
         else if f = ''timestamp'' then
           (case snsTimestamp_UnmarshalJSON v of
              Exits msg \<Rightarrow> Exits msg
            | Returns (Inl err) \<Rightarrow> Returns (Inl err)
            | Returns (Inr ts) \<Rightarrow> Returns (Inr (r\<lparr>Timestamp := ts\<rparr>, saved)))
         else if f = ''signatureVersion'' then
           (case store_int v (SignatureVersion r) of
              Inr n \<Rightarrow> Returns (Inr (r\<lparr>SignatureVersion := n\<rparr>, saved))
            | Inl e \<Rightarrow> Returns (Inr (r, saveError e saved)))
         else if f = ''signingCertUrl'' then
           (case store_string v (SigningCertURL r) of
              Inr s \<Rightarrow> Returns (Inr (r\<lparr>SigningCertURL := s\<rparr>, saved))
            | Inl e \<Rightarrow> Returns (Inr (r, saveError e saved)))
         else if f = ''messageId'' then
           (case store_string v (MessageID r) of
              Inr s \<Rightarrow> Returns (Inr (r\<lparr>MessageID := s\<rparr>, saved))
            | Inl e \<Rightarrow> Returns (Inr (r, saveError e saved)))
         else if f = ''message'' then
           (case store_string v (Message r) of
              Inr s \<Rightarrow> Returns (Inr (r\<lparr>Message := s\<rparr>, saved))
            | Inl e \<Rightarrow> Returns (Inr (r, saveError e saved)))
         else if f = ''unsubscribeUrl'' then
           (case store_string v (UnsubscribeURL r) of
              Inr s \<Rightarrow> Returns (Inr (r\<lparr>UnsubscribeURL := s\<rparr>, saved))
            | Inl e \<Rightarrow> Returns (Inr (r, saveError e saved)))
         else if f = ''type'' then
           (case store_string v (SnsType r) of
              Inr s \<Rightarrow> Returns (Inr (r\<lparr>SnsType := s\<rparr>, saved))
            | Inl e \<Rightarrow> Returns (Inr (r, saveError e saved)))
         else if f = ''signature'' then
           (case store_string v (Signature r) of
              Inr s \<Rightarrow> Returns (Inr (r\<lparr>Signature := s\<rparr>, saved))
            | Inl e \<Rightarrow> Returns (Inr (r, saveError e saved)))
         else if f = ''topicArn'' then
           (case store_string v (TopicArn r) of
              Inr s \<Rightarrow> Returns (Inr (r\<lparr>TopicArn := s\<rparr>, saved))
            | Inl e \<Rightarrow> Returns (Inr (r, saveError e saved)))
         else Returns (Inr (r, saved))))"

fun sns_members ::
  "(string \<times> json) list \<Rightarrow> sns \<times> json_error option \<Rightarrow> (json_error + sns \<times> json_error option) outcome" where
  "sns_members [] st = Returns (Inr st)"
| "sns_members ((k, v) # ms) st =
     (case sns_member k v st of
        Returns (Inr st') \<Rightarrow> sns_members ms st'
      | Returns (Inl err) \<Rightarrow> Returns (Inl err)
      | Exits msg \<Rightarrow> Exits msg)"

text \<open>A value into a variable of type \<open>sns\<close>: an object member by member, \<open>null\<close> nothing.\<close>

definition store_sns ::
  "json \<Rightarrow> sns \<times> json_error option \<Rightarrow> (json_error + sns \<times> json_error option) outcome" where
  "store_sns v st =
     (case v of
        JObject ms \<Rightarrow> sns_members ms st
      | JNull \<Rightarrow> Returns (Inr st)
      | _ \<Rightarrow> Returns (Inr (fst st, saveError (type_error v ''main.sns'') (snd st))))"

definition snsEvent_member ::
  "'f float32_lib \<Rightarrow> string \<Rightarrow> json \<Rightarrow> 'f snsEvent \<times> json_error option
     \<Rightarrow> (json_error + 'f snsEvent \<times> json_error option) outcome" where
  "snsEvent_member lib key v st =
     (case st of (ev, saved) \<Rightarrow>
      (case find_field key snsEvent_fields of
         None \<Rightarrow> Returns (Inr (ev, saved))
       | Some f \<Rightarrow>
         if f = ''sns'' then
           (case store_sns v (Sns ev, saved) of
              Returns (Inr (r, saved')) \<Rightarrow> Returns (Inr (ev\<lparr>Sns := r\<rparr>, saved'))
            | Returns (Inl err) \<Rightarrow> Returns (Inl err)
            | Exits msg \<Rightarrow> Exits msg)
         else if f = ''eventVersion'' then
           (case store_float32 lib v (EventVersion ev) of
              Inr x \<Rightarrow> Returns (Inr (ev\<lparr>EventVersion := x\<rparr>, saved))
            | Inl e \<Rightarrow> Returns (Inr (ev, saveError e saved)))
         else if f = ''eventSource'' then
           (case store_string v (EventSource ev) of
              Inr s \<Rightarrow> Returns (Inr (ev\<lparr>EventSource := s\<rparr>, saved))
            | Inl e \<Rightarrow> Returns (Inr (ev, saveError e saved)))
         else if f = ''eventSubscriptionArn'' then
           (case store_string v (EventSubscriptionArn ev) of
              Inr s \<Rightarrow> Returns (Inr (ev\<lparr>EventSubscriptionArn := s\<rparr>, saved))
            | Inl e \<Rightarrow> Returns (Inr (ev, saveError e saved)))
         else Returns (Inr (ev, saved))))"

fun snsEvent_members ::
  "'f float32_lib \<Rightarrow> (string \<times> json) list \<Rightarrow> 'f snsEvent \<times> json_error option
     \<Rightarrow> (json_error + 'f snsEvent \<times> json_error option) outcome" where
  "snsEvent_members lib [] st = Returns (Inr st)"
| "snsEvent_members lib ((k, v) # ms) st =
     (case snsEvent_member lib k v st of
        Returns (Inr st') \<Rightarrow> snsEvent_members lib ms st'
      | Returns (Inl err) \<Rightarrow> Returns (Inl err)
      | Exits msg \<Rightarrow> Exits msg)"

definition store_snsEvent ::
  "'f float32_lib \<Rightarrow> json \<Rightarrow> 'f snsEvent \<times> json_error option
     \<Rightarrow> (json_error + 'f snsEvent \<times> json_error option) outcome" where
  "store_snsEvent lib v st =
     (case v of
        JObject ms \<Rightarrow> snsEvent_members lib ms st
      | JNull \<Rightarrow> Returns (Inr st)
      | _ \<Rightarrow> Returns (Inr (fst st, saveError (type_error v ''main.snsEvent'') (snd st))))"

text \<open>
  \<open>json.Unmarshal([]byte(quotedJSON), &event)\<close> for \<open>var event snsEvent\<close>: text that
  is not valid JSON is a syntax error and nothing is decoded; otherwise the value is
  stored, and a saved type error is what the call returns in the end.
\<close>

definition json_Unmarshal ::
  "'f float32_lib \<Rightarrow> string \<Rightarrow> (json_error + 'f snsEvent) outcome" where
  "json_Unmarshal lib data =
     (case json_parse data of
        Inl err \<Rightarrow> Returns (Inl err)
      | Inr v \<Rightarrow>
          (case store_snsEvent lib v (snsEvent_zero lib, None) of
             Exits msg \<Rightarrow> Exits msg
           | Returns (Inl err) \<Rightarrow> Returns (Inl err)
           | Returns (Inr (event, Some err)) \<Rightarrow> Returns (Inl err)
           | Returns (Inr (event, None)) \<Rightarrow> Returns (Inr event)))"

section \<open>Encoding the structs\<close>

text \<open>
  The field of type \<open>*messageAttributes\<close>: the pointer type has the \<open>MarshalJSON\<close> method
  of its element, and the writer prints \<open>null\<close> for a nil pointer without calling it.
\<close>

definition encode_MessageAttributes :: "messageAttributes option \<Rightarrow> json_error + string" where
  "encode_MessageAttributes p =
     (case p of
        None \<Rightarrow> Inr ''null''
      | Some m \<Rightarrow>
          (case messageAttributes_MarshalJSON m of
             Inl err \<Rightarrow> Inl (MarshalerError ''MarshalJSON returned an error'')
           | Inr b \<Rightarrow> marshaler_output b))"

definition encode_Timestamp :: "snsTimestamp \<Rightarrow> json_error + string" where
  "encode_Timestamp ts =
     (case snsTimestamp_MarshalJSON ts of
        Inl err \<Rightarrow> Inl (MarshalerError ''MarshalJSON returned an error'')
      | Inr b \<Rightarrow> marshaler_output b)"

definition encode_sns :: "sns \<Rightarrow> json_error + string" where
  \<open>encode_sns r =
     (case encode_MessageAttributes (MessageAttributes r) of
        Inl err \<Rightarrow> Inl err
      | Inr ma \<Rightarrow>
          (case encode_Timestamp (Timestamp r) of
             Inl err \<Rightarrow> Inl err
           | Inr ts \<Rightarrow>
               Inr (''{"messageAttributes":'' @ ma
                    @ '',"signingCertUrl":'' @ appendString (SigningCertURL r)
                    @ '',"messageId":'' @ appendString (MessageID r)
                    @ '',"message":'' @ appendString (Message r)
                    @ '',"unsubscribeUrl":'' @ appendString (UnsubscribeURL r)
                    @ '',"type":'' @ appendString (SnsType r)
                    @ '',"signatureVersion":'' @ FormatInt (SignatureVersion r)
                    @ '',"signature":'' @ appendString (Signature r)
                    @ '',"timestamp":'' @ ts
                    @ '',"topicArn":'' @ appendString (TopicArn r)
                    @ ''}'')))\<close>

text \<open>\<open>json.Marshal(&event)\<close>\<close>

definition json_Marshal :: "'f float32_lib \<Rightarrow> 'f snsEvent \<Rightarrow> json_error + string" where
  \<open>json_Marshal lib event =
     (case encode_sns (Sns event) of
        Inl err \<Rightarrow> Inl err
      | Inr s \<Rightarrow>
          (case FormatFloat32 lib (EventVersion event) of
             None \<Rightarrow> Inl (UnsupportedValueError ''float32'')
           | Some f \<Rightarrow>
               Inr (''{"sns":'' @ s
                    @ '',"eventVersion":'' @ f
                    @ '',"eventSource":'' @ appendString (EventSource event)
                    @ '',"eventSubscriptionArn":'' @ appendString (EventSubscriptionArn event)
                    @ ''}'')))\<close>

section \<open>The regexp package\<close>

text \<open>
  The program uses three regular expressions, built from single bytes, character
  classes, capture groups and the greedy operators \<open>?\<close> and \<open>+\<close>. The model covers this
  part of the syntax: a class is a list of byte ranges, and \<open>+\<close> and \<open>*\<close> apply to a
  single byte or class only. \<open>MustCompile\<close> on anything else panics in the model.
\<close>

type_synonym charclass = "(char \<times> char) list"

definition in_class :: "charclass \<Rightarrow> char \<Rightarrow> bool" where
  "in_class cl c = list_ex (\<lambda>r. byte (fst r) \<le> byte c \<and> byte c \<le> byte (snd r)) cl"

datatype regex =
    Eps
  | Atom charclass
  | Seq regex regex
  | Quest regex
  | Plus charclass
  | Star charclass
  | Group nat regex

datatype panic = Panic string

text \<open>A byte of a class or of the pattern itself, possibly escaped by a backslash.\<close>

definition isPunct :: "char \<Rightarrow> bool" where
  "isPunct c = (byte c < 128 \<and> \<not> isDigit c
                \<and> \<not> (97 \<le> byte c \<and> byte c \<le> 122) \<and> \<not> (65 \<le> byte c \<and> byte c \<le> 90))"

definition class_char :: "string \<Rightarrow> (char \<times> string) option" where
  "class_char s =
     (case s of
        [] \<Rightarrow> None
      | c # r \<Rightarrow>
          if c = CHR 0x5C then
            (case r of [] \<Rightarrow> None | e # r' \<Rightarrow> if isPunct e then Some (e, r') else None)
          else if c = CHR ''['' \<or> c = CHR '']'' then None
          else Some (c, r))"

text \<open>The items of a class after the opening bracket, up to the closing one.\<close>

fun parse_class :: "nat \<Rightarrow> string \<Rightarrow> (charclass \<times> string) option" where
  "parse_class 0 s = None"
| "parse_class (Suc n) s =
     (case s of
        [] \<Rightarrow> None
      | c # r \<Rightarrow>
          if c = CHR '']'' then Some ([], r)
          else (case class_char s of
                  None \<Rightarrow> None
                | Some (lo, r1) \<Rightarrow>
                    if take 1 r1 = ''-'' \<and> take 1 (drop 1 r1) \<noteq> '']'' then
                      (case class_char (drop 1 r1) of
                         None \<Rightarrow> None
                       | Some (hi, r2) \<Rightarrow>
                           if byte hi < byte lo then None
                           else map_option (\<lambda>(cl, r'). ((lo, hi) # cl, r')) (parse_class n r2))
                    else map_option (\<lambda>(cl, r'). ((lo, lo) # cl, r')) (parse_class n r1)))"

text \<open>The bytes \<open>\s\<close> stands for: tab, line feed, form feed, carriage return and space.\<close>

definition perl_space :: charclass where
  "perl_space = [(CHR 0x09, CHR 0x0A), (CHR 0x0C, CHR 0x0D), (CHR 0x20, CHR 0x20)]"

text \<open>
  A greedy operator after an item, if there is one. A second operator behind it (the lazy
  forms, or a repetition of a repetition) and a counted repetition are not covered.
\<close>

definition parse_quant :: "regex \<Rightarrow> string \<Rightarrow> (regex \<times> string) option" where
  "parse_quant a s =
     (case s of
        [] \<Rightarrow> Some (a, s)
      | q # r \<Rightarrow>
          if q = CHR ''{'' then None
          else if q \<in> set ''?+*'' then
            (if take 1 r \<in> {''?'', ''+'', ''*'', ''{''} then None
             else if q = CHR ''?'' then Some (Quest a, r)
             else (case a of
                     Atom cl \<Rightarrow> Some (if q = CHR ''+'' then Plus cl else Star cl, r)
                   | _ \<Rightarrow> None))
          else Some (a, s))"

text \<open>
  A sequence of items up to a closing parenthesis or the end of the pattern, and one
  item. The second argument is the index the next capture group gets: groups are
  numbered by their opening parentheses, from 1. The first argument bounds the nesting
  of calls; the length of the pattern is enough.
\<close>

fun parse_seq :: "nat \<Rightarrow> nat \<Rightarrow> string \<Rightarrow> (regex \<times> string \<times> nat) option"
  and parse_item :: "nat \<Rightarrow> nat \<Rightarrow> string \<Rightarrow> (regex \<times> string \<times> nat) option"
where
  "parse_seq 0 g s = None"
| "parse_seq (Suc n) g s =
     (case s of
        [] \<Rightarrow> Some (Eps, [], g)
      | c # r \<Rightarrow>
          if c = CHR '')'' then Some (Eps, s, g)
          else (case parse_item n g s of
                  None \<Rightarrow> None
                | Some (a, r1, g1) \<Rightarrow>
                    (case parse_quant a r1 of
                       None \<Rightarrow> None
                     | Some (a', r2) \<Rightarrow>
                         (case parse_seq n g1 r2 of
                            None \<Rightarrow> None
                          | Some (b, r3, g2) \<Rightarrow> Some (Seq a' b, r3, g2)))))"
| "parse_item 0 g s = None"
| "parse_item (Suc n) g s =
     (case s of
        [] \<Rightarrow> None
      | c # r \<Rightarrow>
          if c = CHR ''('' then
            (if take 1 r = ''?'' then None
             else (case parse_seq n (Suc g) r of
                     None \<Rightarrow> None
                   | Some (a, r1, g1) \<Rightarrow>
                       if take 1 r1 = '')'' then Some (Group g a, drop 1 r1, g1) else None))
          else if c = CHR ''['' then
            (if take 1 r = ''^'' \<or> take 1 r = '']'' then None
             else map_option (\<lambda>(cl, r1). (Atom cl, r1, g)) (parse_class (length r) r))
          else if c = CHR 0x5C then
            (case r of
               [] \<Rightarrow> None
             | e # r1 \<Rightarrow>
                 if e = CHR ''s'' then Some (Atom perl_space, r1, g)
                 else if isPunct e then Some (Atom [(e, e)], r1, g)
                 else None)
          else if c \<in> set ''|*+?{}.^$'' then None
          else Some (Atom [(c, c)], r, g))"

text \<open>\<open>regexp.MustCompile\<close>: the compiled expression, or a panic.\<close>

definition MustCompile :: "string \<Rightarrow> panic + regex" where
  "MustCompile str =
     (case parse_seq (Suc (length str)) 1 str of
        Some (re, [], g) \<Rightarrow> Inr re
      | _ \<Rightarrow> Inl (Panic (''regexp: Compile: cannot parse '' @ str)))"

text \<open>
  Matching at the head of a text, as a backtracking search does it: every operator
  first tries to take what it can and gives it back if what follows does not match.
  The continuation is the rest of the pattern; captures are collected on the way, the
  latest first.
\<close>

type_synonym captures = "(nat \<times> string) list"

fun plus_run :: "(char \<Rightarrow> bool) \<Rightarrow> (string \<Rightarrow> 'r option) \<Rightarrow> string \<Rightarrow> 'r option" where
  "plus_run P k [] = None"
| "plus_run P k (x # xs) =
     (if P x then (case plus_run P k xs of Some r \<Rightarrow> Some r | None \<Rightarrow> k xs) else None)"

primrec matches ::
  "regex \<Rightarrow> string \<Rightarrow> captures \<Rightarrow> (string \<Rightarrow> captures \<Rightarrow> 'r option) \<Rightarrow> 'r option" where
  "matches Eps s c k = k s c"
| "matches (Atom cl) s c k =
     (case s of [] \<Rightarrow> None | x # xs \<Rightarrow> if in_class cl x then k xs c else None)"
| "matches (Seq a b) s c k = matches a s c (\<lambda>s' c'. matches b s' c' k)"
| "matches (Quest a) s c k =
     (case matches a s c k of Some r \<Rightarrow> Some r | None \<Rightarrow> k s c)"
| "matches (Plus cl) s c k = plus_run (in_class cl) (\<lambda>s'. k s' c) s"
| "matches (Star cl) s c k =
     (case plus_run (in_class cl) (\<lambda>s'. k s' c) s of Some r \<Rightarrow> Some r | None \<Rightarrow> k s c)"
| "matches (Group n a) s c k =
     matches a s c (\<lambda>s' c'. k s' ((n, take (length s - length s') s) # c'))"

text \<open>The match that starts at the head of the text: its captures (0 is the whole match) and the text after it.\<close>

definition match_here :: "regex \<Rightarrow> string \<Rightarrow> (captures \<times> string) option" where
  "match_here re s =
     matches re s [] (\<lambda>s' c'. Some ((0, take (length s - length s') s) # c', s'))"

definition submatch :: "captures \<Rightarrow> nat \<Rightarrow> string" where
  "submatch caps n = (case map_of caps n of Some g \<Rightarrow> g | None \<Rightarrow> [])"

text \<open>
  \<open>Regexp.expand\<close>: in the replacement text \<open>$$\<close> is a dollar sign, \<open>$name\<close> and
  \<open>${name}\<close> stand for a submatch, where the name is the longest run of letters,
  digits and underscores; a name that is no number stands for a named group, of which
  these patterns have none. A dollar sign followed by anything else is ordinary text.
\<close>

definition isNameChar :: "char \<Rightarrow> bool" where
  "isNameChar c = (isDigit c \<or> c = CHR ''_'' \<or> (97 \<le> byte c \<and> byte c \<le> 122) \<or> (65 \<le> byte c \<and> byte c \<le> 90))"

definition extract_name :: "string \<Rightarrow> (string \<times> string) option" where
  "extract_name str =
     (let brace = (take 1 str = ''{'');
          str1 = (if brace then drop 1 str else str);
          name = takeWhile isNameChar str1;
          rest = dropWhile isNameChar str1
      in if name = [] then None
         else if brace then (if take 1 rest = ''}'' then Some (name, drop 1 rest) else None)
         else Some (name, rest))"

definition group_text :: "captures \<Rightarrow> string \<Rightarrow> string" where
  "group_text caps name =
     (if list_all isDigit name \<and> length name \<le> 8 \<and> \<not> (take 1 name = ''0'' \<and> length name > 1)
      then submatch caps (nat (atoi_digits name)) else [])"

function expand :: "string \<Rightarrow> captures \<Rightarrow> string" where
  "expand [] caps = []"
| "expand (c # cs) caps =
     (if c = CHR ''$'' then
        (if take 1 cs = ''$'' then CHR ''$'' # expand (drop 1 cs) caps
         else (case extract_name cs of
                 None \<Rightarrow> CHR ''$'' # expand cs caps
               | Some (name, rest) \<Rightarrow>
                   if length rest \<le> length cs then group_text caps name @ expand rest caps
                   else group_text caps name))
      else c # expand cs caps)"
  by pat_completeness auto
termination
  by (relation "measure (\<lambda>(s, caps). length s)") auto

text \<open>
  \<open>Regexp.ReplaceAllString\<close>: the text is searched from left to right for the next
  match, what lies before it is copied and the match is replaced; the search goes on
  behind the match. An empty match is replaced too, unless it directly follows another
  match, and the search then moves on by one byte. The flag says whether the text in
  hand directly follows a match.
\<close>

function replace_from :: "regex \<Rightarrow> string \<Rightarrow> bool \<Rightarrow> string \<Rightarrow> string" where
  "replace_from re repl after s =
     (case match_here re s of
        Some (caps, rest) \<Rightarrow>
          if length rest < length s then expand repl caps @ replace_from re repl True rest
          else (if after then [] else expand repl caps)
               @ (case s of [] \<Rightarrow> [] | c # cs \<Rightarrow> c # replace_from re repl False cs)
      | None \<Rightarrow> (case s of [] \<Rightarrow> [] | c # cs \<Rightarrow> c # replace_from re repl False cs))"
  by pat_completeness auto
termination
  by (relation "measure (\<lambda>(re, repl, after, s). length s)") auto

declare replace_from.simps [simp del]

definition ReplaceAllString :: "regex \<Rightarrow> string \<Rightarrow> string \<Rightarrow> string" where
  "ReplaceAllString re src repl = replace_from re repl False src"

section \<open>The repository: the normalizer and the body of the main loop\<close>

text \<open>
  The three patterns of \<open>parseUnquotedJSON\<close>, byte for byte as the source has them
  between back quotes:
  \<^verbatim>\<open>(['"])?([a-z0-9A-Z_]+)(['"])?:\s\<close>,
  \<^verbatim>\<open>: (['"])?([a-z0-9A-Z_\/\.\-\:\?\&\=\+]+)(['"])?\<close> and
  \<^verbatim>\<open>: (["']?)([0-9\.]+)(["']?),\<close>.
\<close>

definition field_pattern :: string where
  \<open>field_pattern = ''(['"])?([a-z0-9A-Z_]+)(['"])?:'' @ [CHR 0x5C] @ ''s''\<close>

definition value_pattern :: string where
  \<open>value_pattern =
     '': (['"])?([a-z0-9A-Z_'' @ [CHR 0x5C] @ ''/'' @ [CHR 0x5C] @ ''.'' @ [CHR 0x5C] @ ''-''
       @ [CHR 0x5C] @ '':'' @ [CHR 0x5C] @ ''?'' @ [CHR 0x5C] @ ''&'' @ [CHR 0x5C] @ ''=''
       @ [CHR 0x5C] @ ''+]+)(['"])?''\<close>

definition number_pattern :: string where
  \<open>number_pattern = '': (["']?)([0-9'' @ [CHR 0x5C] @ ''.]+)(["']?),''\<close>

text \<open>
  The three passes of \<open>parseUnquotedJSON\<close>, each a \<open>MustCompile\<close> and a
  \<open>ReplaceAllString\<close>: quotes around the field names, quotes around the values, and
  no quotes around the numbers that a comma follows. A pattern that does not compile
  is a panic.
\<close>

definition quote_fields :: "string \<Rightarrow> panic + string" where
  \<open>quote_fields s =
     (case MustCompile field_pattern of
        Inl p \<Rightarrow> Inl p
      | Inr re \<Rightarrow> Inr (ReplaceAllString re s ''"$2": ''))\<close>

definition quote_values :: "string \<Rightarrow> panic + string" where
  \<open>quote_values s =
     (case MustCompile value_pattern of
        Inl p \<Rightarrow> Inl p
      | Inr re \<Rightarrow> Inr (ReplaceAllString re s '': "$2"''))\<close>

definition unquote_numbers :: "string \<Rightarrow> panic + string" where
  \<open>unquote_numbers s =
     (case MustCompile number_pattern of
        Inl p \<Rightarrow> Inl p
      | Inr re \<Rightarrow> Inr (ReplaceAllString re s '': $2,''))\<close>

definition parseUnquotedJSON :: "string \<Rightarrow> panic + string" where
  "parseUnquotedJSON unquotedJSON =
     (case quote_fields unquotedJSON of
        Inl p \<Rightarrow> Inl p
      | Inr s1 \<Rightarrow>
          (case quote_values s1 of
             Inl p \<Rightarrow> Inl p
           | Inr s2 \<Rightarrow> unquote_numbers s2))"

text \<open>
  What the main loop does with the contents of one object, up to the bytes it hands to
  \<open>PutObject\<close>: normalize, decode (any error ends the process through \<open>exitErrorf\<close>),
  encode (an error is only logged, and the bytes are then empty).
\<close>

datatype run = Put string | Exit string | Panicked panic

definition process_item :: "'f float32_lib \<Rightarrow> string \<Rightarrow> run" where
  "process_item lib contents =
     (case parseUnquotedJSON contents of
        Inl p \<Rightarrow> Panicked p
      | Inr quotedJSON \<Rightarrow>
          (case json_Unmarshal lib quotedJSON of
             Exits msg \<Rightarrow> Exit msg
           | Returns (Inl err) \<Rightarrow> Exit ''Unable to unmarshal contents of item''
           | Returns (Inr event) \<Rightarrow>
               (case json_Marshal lib event of
                  Inl err \<Rightarrow> Put []
                | Inr b \<Rightarrow> Put b)))"

section \<open>The three patterns, compiled\<close>

definition quote_class :: charclass where
  "quote_class = [(CHR 0x27, CHR 0x27), (CHR 0x22, CHR 0x22)]"

definition quote_class' :: charclass where
  "quote_class' = [(CHR 0x22, CHR 0x22), (CHR 0x27, CHR 0x27)]"

definition ident_class :: charclass where
  "ident_class = [(CHR ''a'', CHR ''z''), (CHR ''0'', CHR ''9''), (CHR ''A'', CHR ''Z''), (CHR ''_'', CHR ''_'')]"

definition safe_class :: charclass where
  "safe_class =
     [(CHR ''a'', CHR ''z''), (CHR ''0'', CHR ''9''), (CHR ''A'', CHR ''Z''), (CHR ''_'', CHR ''_''),
      (CHR ''/'', CHR ''/''), (CHR ''.'', CHR ''.''), (CHR ''-'', CHR ''-''), (CHR '':'', CHR '':''),
      (CHR ''?'', CHR ''?''), (CHR ''&'', CHR ''&''), (CHR ''='', CHR ''=''), (CHR ''+'', CHR ''+'')]"

definition number_class :: charclass where
  "number_class = [(CHR ''0'', CHR ''9''), (CHR ''.'', CHR ''.'')]"

definition field_re :: regex where
  "field_re =
     Seq (Quest (Group 1 (Seq (Atom quote_class) Eps)))
    (Seq (Group 2 (Seq (Plus ident_class) Eps))
    (Seq (Quest (Group 3 (Seq (Atom quote_class) Eps)))
    (Seq (Atom [(CHR '':'', CHR '':'')])
    (Seq (Atom perl_space) Eps))))"

definition value_re :: regex where
  "value_re =
     Seq (Atom [(CHR '':'', CHR '':'')])
    (Seq (Atom [(CHR '' '', CHR '' '')])
    (Seq (Quest (Group 1 (Seq (Atom quote_class) Eps)))
    (Seq (Group 2 (Seq (Plus safe_class) Eps))
    (Seq (Quest (Group 3 (Seq (Atom quote_class) Eps))) Eps))))"

definition number_re :: regex where
  "number_re =
     Seq (Atom [(CHR '':'', CHR '':'')])
    (Seq (Atom [(CHR '' '', CHR '' '')])
    (Seq (Group 1 (Seq (Quest (Atom quote_class')) Eps))
    (Seq (Group 2 (Seq (Plus number_class) Eps))
    (Seq (Group 3 (Seq (Quest (Atom quote_class')) Eps))
    (Seq (Atom [(CHR '','', CHR '','')]) Eps)))))"

section \<open>Vocabulary of the properties\<close>






section \<open>Properties: integers and time\<close>

lemma int64_id: "in_int64 x \<Longrightarrow> int64 x = x"
  by (simp add: int64_def in_int64_def)

lemma in_int64_int64: "in_int64 (int64 x)"
proof -
  have "0 \<le> (x + 9223372036854775808) mod (18446744073709551616 :: int)"
    and "(x + 9223372036854775808) mod (18446744073709551616 :: int) < 18446744073709551616"
    by simp_all
  then show ?thesis by (simp add: int64_def in_int64_def)
qed

lemma mod_shift_add:
  "((x + h) mod m - h + b + h) mod m = (x + b + h) mod (m::int)"
proof -
  have "(x + h) mod m - h + b + h = (x + h) mod m + b" by simp
  then show ?thesis by (simp add: mod_simps algebra_simps)
qed

lemma int64_add_left: "int64 (int64 a + b) = int64 (a + b)"
  by (simp only: int64_def mod_shift_add)

lemma UnixNano_eq: "UnixNano t = int64 (sec t * 1000000000 + nsec t)"
  by (simp add: UnixNano_def int64_add_left)

lemma go_quo_pos: "0 \<le> a \<Longrightarrow> 0 < b \<Longrightarrow> go_quo a b = a div b"
  by (cases "a = 0") (simp_all add: go_quo_def)

lemma go_quo_neg: "a < 0 \<Longrightarrow> 0 < b \<Longrightarrow> go_quo a b = - ((- a) div b)"
  by (simp add: go_quo_def)

lemma go_quo_rem_pos:
  assumes "0 < b" "0 \<le> a"
  shows "0 \<le> go_quo a b" "go_quo a b * b \<le> a" "a - go_quo a b * b < b"
proof -
  have q: "go_quo a b = a div b" using assms by (simp add: go_quo_pos)
  show "0 \<le> go_quo a b" using assms q by (simp add: pos_imp_zdiv_nonneg_iff)
  have "a = a div b * b + a mod b" by simp
  moreover have "0 \<le> a mod b" "a mod b < b" using assms by simp_all
  ultimately show "go_quo a b * b \<le> a" "a - go_quo a b * b < b" unfolding q by linarith+
qed

lemma go_quo_rem_neg:
  assumes "0 < b" "a < 0"
  shows "go_quo a b \<le> 0" "a \<le> go_quo a b * b" "- b < a - go_quo a b * b"
proof -
  have q: "go_quo a b = - ((- a) div b)" using assms by (simp add: go_quo_neg)
  have "0 \<le> (- a) div b" using assms by (simp add: pos_imp_zdiv_nonneg_iff)
  then show "go_quo a b \<le> 0" using q by simp
  have "- a = (- a) div b * b + (- a) mod b" by simp
  moreover have "0 \<le> (- a) mod b" "(- a) mod b < b" using assms by simp_all
  ultimately show "a \<le> go_quo a b * b" "- b < a - go_quo a b * b" unfolding q by (simp_all; linarith)+
qed


lemma time_Unix_total:
  assumes "in_int64 n"
  shows "sec (time_Unix 0 n) * 1000000000 + nsec (time_Unix 0 n) = n"
proof (cases "n < 0 \<or> n \<ge> 1000000000")
  case False
  then show ?thesis by (simp add: time_Unix_def)
next
  case True
  define q where "q = go_quo n 1000000000"
  define r where "r = n - q * 1000000000"
  have b: "- 9223372036854775808 \<le> n" "n < 9223372036854775808"
    using assms by (simp_all add: in_int64_def)
  have qr: "- 9223372036854775808 \<le> q * 1000000000 \<and> q * 1000000000 < 9223372036854775808
            \<and> - 1000000000 < r \<and> r < 1000000000
            \<and> - 9223372036854775808 \<le> q - 1 \<and> q < 9223372036854775808"
  proof (cases "0 \<le> n")
    case True
    from go_quo_rem_pos [of 1000000000 n] True
    show ?thesis unfolding q_def r_def using b by (simp; linarith?)
  next
    case False
    from go_quo_rem_neg [of 1000000000 n] False
    show ?thesis unfolding q_def r_def using b by (simp; linarith?)
  qed
  have i1: "int64 (0 + q) = q" using qr by (simp add: int64_id in_int64_def)
  have i2: "int64 (q * 1000000000) = q * 1000000000" using qr by (simp add: int64_id in_int64_def)
  have i3: "int64 r = r" using qr by (simp add: int64_id in_int64_def)
  have i4: "int64 (q - 1) = q - 1" using qr by (simp add: int64_id in_int64_def)
  have i5: "int64 (r + 1000000000) = r + 1000000000" using qr by (simp add: int64_id in_int64_def)
  have "time_Unix 0 n =
          (if r < 0 then \<lparr>sec = q - 1, nsec = r + 1000000000\<rparr> else \<lparr>sec = q, nsec = r\<rparr>)"
    using True i1 i2 i3 i4 i5 r_def
    by (simp add: time_Unix_def Let_def q_def [symmetric])
  then show ?thesis by (simp add: r_def)
qed

lemma UnixNano_time_Unix: "in_int64 n \<Longrightarrow> UnixNano (time_Unix 0 n) = n"
  by (simp add: UnixNano_eq time_Unix_total int64_id)

lemma in_int64_go_quo: "in_int64 n \<Longrightarrow> in_int64 (go_quo n 1000000)"
proof (cases "0 \<le> n")
  case True
  assume "in_int64 n"
  with go_quo_rem_pos [of 1000000 n] True show ?thesis
    by (simp add: in_int64_def; linarith?)
next
  case False
  assume "in_int64 n"
  with go_quo_rem_neg [of 1000000 n] False show ?thesis
    by (simp add: in_int64_def; linarith?)
qed

lemma snsTimestamp_roundtrip:
  "snsTimestamp_MarshalJSON (go_quo (UnixNano t) 1000000) = Inr (FormatInt (go_quo (UnixNano t) 1000000))"
  by (simp add: snsTimestamp_MarshalJSON_def Let_def UnixNano_eq time_Unix_total in_int64_go_quo
      in_int64_int64 int64_id)

lemma atoi_digits_bounds_aux:
  "list_all isDigit ds \<Longrightarrow> 0 \<le> acc \<Longrightarrow>
     0 \<le> foldl (\<lambda>acc c. acc * 10 + digit_val c) acc ds
     \<and> foldl (\<lambda>acc c. acc * 10 + digit_val c) acc ds < (acc + 1) * 10 ^ length ds"
proof (induction ds arbitrary: acc)
  case Nil
  then show ?case by simp
next
  case (Cons c ds)
  have d: "0 \<le> digit_val c \<and> digit_val c \<le> 9"
    using Cons.prems(1) by (auto simp: isDigit_def digit_val_def)
  have "0 \<le> acc * 10 + digit_val c" using d Cons.prems(2) by simp
  from Cons.IH [OF _ this] Cons.prems(1)
  have ih: "0 \<le> foldl (\<lambda>acc c. acc * 10 + digit_val c) (acc * 10 + digit_val c) ds"
    "foldl (\<lambda>acc c. acc * 10 + digit_val c) (acc * 10 + digit_val c) ds
       < (acc * 10 + digit_val c + 1) * 10 ^ length ds"
    by simp_all
  have "(acc * 10 + digit_val c + 1) * 10 ^ length ds \<le> ((acc + 1) * 10) * 10 ^ length ds"
    using d by (intro mult_right_mono) simp_all
  with ih(2) have "foldl (\<lambda>acc c. acc * 10 + digit_val c) (acc * 10 + digit_val c) ds
       < ((acc + 1) * 10) * 10 ^ length ds"
    by (rule less_le_trans)
  moreover have "((acc + 1) * 10) * 10 ^ length ds = (acc + 1) * 10 ^ length (c # ds)"
    by simp
  ultimately have lt: "foldl (\<lambda>acc c. acc * 10 + digit_val c) (acc * 10 + digit_val c) ds
       < (acc + 1) * 10 ^ length (c # ds)"
    by (simp only:)
  have step: "foldl (\<lambda>acc c. acc * 10 + digit_val c) acc (c # ds)
       = foldl (\<lambda>acc c. acc * 10 + digit_val c) (acc * 10 + digit_val c) ds"
    by simp
  show ?case unfolding step using ih(1) lt by (rule conjI)
qed

lemma atoi_digits_bounds:
  "list_all isDigit ds \<Longrightarrow> 0 \<le> atoi_digits ds \<and> atoi_digits ds < 10 ^ length ds"
  using atoi_digits_bounds_aux [of ds 0] by (simp add: atoi_digits_def)

lemma parseNanoseconds_bounds:
  assumes "list_all isDigit ds"
  shows "0 \<le> parseNanoseconds ds \<and> parseNanoseconds ds < 1000000000"
proof -
  let ?d9 = "take 9 ds"
  have a: "list_all isDigit ?d9" using assms by (simp add: list_all_iff) (meson in_set_takeD)
  have l: "length ?d9 \<le> 9" by simp
  from atoi_digits_bounds [OF a]
  have b: "0 \<le> atoi_digits ?d9" "atoi_digits ?d9 < 10 ^ length ?d9" by simp_all
  have "atoi_digits ?d9 * 10 ^ (9 - length ?d9) < 10 ^ length ?d9 * 10 ^ (9 - length ?d9)"
    using b by (intro mult_strict_right_mono) simp_all
  also have "\<dots> = (10::int) ^ 9" using l by (simp add: power_add [symmetric])
  finally have "atoi_digits ?d9 * 10 ^ (9 - length ?d9) < 1000000000" by simp
  then show ?thesis using b by (simp add: parseNanoseconds_def Let_def)
qed


lemma bindE:
  assumes "Option.bind m f = Some y"
  obtains x where "m = Some x" "f x = Some y"
  using assms by (cases m) auto

lemma parse_fraction_digits: "parse_fraction x = (f, r) \<Longrightarrow> list_all isDigit f"
  by (auto simp: parse_fraction_def list_all_iff split: list.splits if_splits dest: set_takeWhileD)

lemma nsec_Date: "nsec (Date y m d h mi s ns) = ns"
  by (simp add: Date_def Let_def)

lemma parse_fraction_nsec:
  "0 \<le> parseNanoseconds (fst (parse_fraction x))"
  "parseNanoseconds (fst (parse_fraction x)) < 1000000000"
  using parseNanoseconds_bounds [OF parse_fraction_digits [of x "fst (parse_fraction x)" "snd (parse_fraction x)"]]
  by simp_all

lemma time_Parse_nsec:
  assumes "time_Parse_RFC3339 s = Some t"
  shows "0 \<le> nsec t \<and> nsec t < 1000000000"
  using assms unfolding time_Parse_RFC3339_def Let_def
  by (auto simp: require_def nsec_Date case_prod_beta parse_fraction_nsec
           split: if_splits elim!: bindE)

text \<open>
  Claim C1, as the code has it. For every string that \<open>time.Parse\<close> accepts under the
  RFC3339 layout and whose instant lies within the nanoseconds an \<open>int64\<close> can count from
  the Unix epoch (1677-09-21 to 2262-04-11), decoding it and then encoding the decoded
  \<open>snsTimestamp\<close> yields the decimal text of the nanoseconds since the epoch divided by
  one million, truncated towards zero; for an instant at or after the epoch that is the
  number of whole milliseconds since the epoch. The example of the claim,
  \<open>2023-01-01T00:00:00.000Z\<close>, yields \<open>1672531200000\<close>. Outside that range the
  nanosecond count wraps around and the text is another number.
\<close>

theorem timestamp_roundtrip_millis:
  assumes "time_Parse_RFC3339 s = Some t"
    and "in_int64 (sec t * 1000000000 + nsec t)"
  shows "snsTimestamp_UnmarshalJSON (JString s)
           = Returns (Inr (go_quo (sec t * 1000000000 + nsec t) 1000000))
       \<and> snsTimestamp_MarshalJSON (go_quo (sec t * 1000000000 + nsec t) 1000000)
           = Inr (FormatInt (go_quo (sec t * 1000000000 + nsec t) 1000000))
       \<and> (0 \<le> sec t \<longrightarrow>
            go_quo (sec t * 1000000000 + nsec t) 1000000 = sec t * 1000 + nsec t div 1000000)"
proof -
  have u: "UnixNano t = sec t * 1000000000 + nsec t"
    using assms(2) by (simp add: UnixNano_eq int64_id)
  have d: "snsTimestamp_UnmarshalJSON (JString s)
           = Returns (Inr (go_quo (sec t * 1000000000 + nsec t) 1000000))"
    using assms(1) u
    by (simp add: snsTimestamp_UnmarshalJSON_def json_Unmarshal_string_def store_string_def)
  have e: "snsTimestamp_MarshalJSON (go_quo (sec t * 1000000000 + nsec t) 1000000)
           = Inr (FormatInt (go_quo (sec t * 1000000000 + nsec t) 1000000))"
    using snsTimestamp_roundtrip [of t] u by simp
  have m: "go_quo (sec t * 1000000000 + nsec t) 1000000 = sec t * 1000 + nsec t div 1000000"
    if "0 \<le> sec t"
  proof -
    have n: "0 \<le> nsec t" using time_Parse_nsec [OF assms(1)] by simp
    have "0 \<le> sec t * 1000000000 + nsec t" using that n by simp
    then have h1: "go_quo (sec t * 1000000000 + nsec t) 1000000
                 = (sec t * 1000000000 + nsec t) div 1000000"
      by (simp add: go_quo_pos)
    have h2: "sec t * 1000000000 + nsec t = nsec t + (sec t * 1000) * 1000000" by simp
    have h3: "(nsec t + (sec t * 1000) * 1000000) div 1000000 = sec t * 1000 + nsec t div 1000000"
      by (rule div_mult_self1) simp
    show ?thesis unfolding h1 unfolding h2 by (rule h3)
  qed
  from d e m show ?thesis by blast
qed

text \<open>The example of the claim, as an instance of the theorem.\<close>

theorem timestamp_roundtrip_millis_witness:
  "time_Parse_RFC3339 ''2023-01-01T00:00:00.000Z'' = Some \<lparr>sec = 1672531200, nsec = 0\<rparr>
   \<and> snsTimestamp_UnmarshalJSON (JString ''2023-01-01T00:00:00.000Z'') = Returns (Inr 1672531200000)
   \<and> snsTimestamp_MarshalJSON 1672531200000 = Inr ''1672531200000''"
proof -
  have p: "time_Parse_RFC3339 ''2023-01-01T00:00:00.000Z'' = Some \<lparr>sec = 1672531200, nsec = 0\<rparr>"
    by code_simp
  have r: "in_int64 (sec \<lparr>sec = 1672531200, nsec = 0\<rparr> * 1000000000 + nsec \<lparr>sec = 1672531200, nsec = 0\<rparr>)"
    by (simp add: in_int64_def)
  have q: "go_quo (sec \<lparr>sec = 1672531200, nsec = 0\<rparr> * 1000000000 + nsec \<lparr>sec = 1672531200, nsec = 0\<rparr>) 1000000
             = 1672531200000"
    by (simp add: go_quo_def)
  have f: "FormatInt 1672531200000 = ''1672531200000''"
    by code_simp
  from timestamp_roundtrip_millis [OF p r] p show ?thesis
    unfolding q f by simp
qed

text \<open>
  The claim as stated, for every RFC3339 string, fails in the year 2300: the instant is
  10413792000000 milliseconds after the epoch, and the round trip prints another number.
\<close>

theorem timestamp_roundtrip_wraps:
  "time_Parse_RFC3339 ''2300-01-01T00:00:00Z'' = Some \<lparr>sec = 10413792000, nsec = 0\<rparr>
   \<and> snsTimestamp_UnmarshalJSON (JString ''2300-01-01T00:00:00Z'') = Returns (Inr (- 8032952073709))
   \<and> snsTimestamp_MarshalJSON (- 8032952073709) = Inr ''-8032952073709''"
  by code_simp

section \<open>Properties: the field codecs and the decoder\<close>















lemma find_field_sns: "find_field ''sns'' snsEvent_fields = Some ''sns''"
  by code_simp












lemma snsEvent_member_sns:
  "find_field k snsEvent_fields = Some ''sns'' \<Longrightarrow>
   snsEvent_member lib k v (ev, saved) =
     (case store_sns v (Sns ev, saved) of
        Returns (Inr (r, saved')) \<Rightarrow> Returns (Inr (ev\<lparr>Sns := r\<rparr>, saved'))
      | Returns (Inl err) \<Rightarrow> Returns (Inl err)
      | Exits msg \<Rightarrow> Exits msg)"
  by (simp add: snsEvent_member_def)
























lemma encode_sns_zero:
  \<open>encode_sns sns_zero = Inr ''{"messageAttributes":null,"signingCertUrl":"","messageId":"","message":"","unsubscribeUrl":"","type":"","signatureVersion":0,"signature":"","timestamp":0,"topicArn":""}''\<close>
  by code_simp

text \<open>
  Claim C5 against the code: a nil \<open>*messageAttributes\<close> is written as \<open>null\<close>, not as
  \<open>{}\<close>; the zero \<open>sns\<close>, whose pointer is nil, shows it in full.
\<close>
theorem nil_messageAttributes_encodes_null:
  \<open>encode_MessageAttributes None = Inr ''null''
   \<and> encode_sns sns_zero = Inr ''{"messageAttributes":null,"signingCertUrl":"","messageId":"","message":"","unsubscribeUrl":"","type":"","signatureVersion":0,"signature":"","timestamp":0,"topicArn":""}''\<close>
  by (simp add: encode_MessageAttributes_def encode_sns_zero)

section \<open>Properties: the normalizer and the whole pipeline\<close>

lemma compile_field: "MustCompile field_pattern = Inr field_re"
  by code_simp

lemma compile_value: "MustCompile value_pattern = Inr value_re"
  by code_simp

lemma compile_number: "MustCompile number_pattern = Inr number_re"
  by code_simp

text \<open>
  Claim C7. Whatever the input, \<open>parseUnquotedJSON\<close> returns a string: the three
  patterns compile, so no \<open>MustCompile\<close> panics, and each replacement loop ends, since
  every round of it moves on in the text.
\<close>

theorem parseUnquotedJSON_total: "\<exists>r. parseUnquotedJSON s = Inr r"
  by (simp add: parseUnquotedJSON_def quote_fields_def quote_values_def unquote_numbers_def
      compile_field compile_value compile_number)

lemma normalize_flat:
  \<open>parseUnquotedJSON ''messageId: abc-123, signatureVersion: "1", timestamp: "2023-06-15T12:00:00Z", type: Notification, message: hello''
  = Inr ''"messageId": "abc-123", "signatureVersion": 1, "timestamp": "2023-06-15T12:00:00Z", "type": "Notification", "message": "hello"''\<close>
  by code_simp

lemma parse_flat:
  \<open>json_parse ''"messageId": "abc-123", "signatureVersion": 1, "timestamp": "2023-06-15T12:00:00Z", "type": "Notification", "message": "hello"''
  = Inl (SyntaxError ''invalid character after top-level value'')\<close>
  by code_simp

lemma normalize_wrapped:
  \<open>parseUnquotedJSON ''{sns: {messageId: abc-123, signatureVersion: "1", timestamp: "2023-06-15T12:00:00Z", type: Notification, message: hello}}''
  = Inr ''{"sns": {"messageId": "abc-123", "signatureVersion": 1, "timestamp": "2023-06-15T12:00:00Z", "type": "Notification", "message": "hello"}}''\<close>
  by code_simp

lemma parse_wrapped:
  \<open>json_parse ''{"sns": {"messageId": "abc-123", "signatureVersion": 1, "timestamp": "2023-06-15T12:00:00Z", "type": "Notification", "message": "hello"}}''
  = Inr (JObject [(''sns'', JObject [(''messageId'', JString ''abc-123''), (''signatureVersion'', JNumber ''1''),
        (''timestamp'', JString ''2023-06-15T12:00:00Z''), (''type'', JString ''Notification''),
        (''message'', JString ''hello'')])])\<close>
  by code_simp

lemma store_wrapped:
  "store_sns (JObject [(''messageId'', JString ''abc-123''), (''signatureVersion'', JNumber ''1''),
        (''timestamp'', JString ''2023-06-15T12:00:00Z''), (''type'', JString ''Notification''),
        (''message'', JString ''hello'')]) (sns_zero, None)
   = Returns (Inr (\<lparr>MessageAttributes = None, SigningCertURL = [], MessageID = ''abc-123'', Message = ''hello'',
      UnsubscribeURL = [], SnsType = ''Notification'', SignatureVersion = 1, Signature = [],
      Timestamp = 1686830400000, TopicArn = []\<rparr>, None))"
  by code_simp

lemma encode_wrapped:
  \<open>encode_sns \<lparr>MessageAttributes = None, SigningCertURL = [], MessageID = ''abc-123'', Message = ''hello'',
      UnsubscribeURL = [], SnsType = ''Notification'', SignatureVersion = 1, Signature = [],
      Timestamp = 1686830400000, TopicArn = []\<rparr>
   = Inr ''{"messageAttributes":null,"signingCertUrl":"","messageId":"abc-123","message":"hello","unsubscribeUrl":"","type":"Notification","signatureVersion":1,"signature":"","timestamp":1686830400000,"topicArn":""}''\<close>
  by code_simp

lemma appendString_empty: "appendString [] = [CHR 0x22, CHR 0x22]"
  by (simp add: appendString_def)

text \<open>
  Claim C4, as the code has it. The normalizer turns the flat text of the scenario into
  the five quoted members, with \<open>signatureVersion\<close> unquoted. The program decodes into
  an envelope whose notification is the member \<open>sns\<close>, so the same five fields written
  inside \<open>{sns: {...}}\<close> are what it normalizes, decodes and encodes again: the
  result holds \<open>"messageId":"abc-123"\<close>, \<open>"signatureVersion":1\<close>,
  \<open>"timestamp":1686830400000\<close>, \<open>"type":"Notification"\<close> and \<open>"message":"hello"\<close>,
  next to the fields the input does not mention.
\<close>

theorem end_to_end_scenario:
  \<open>parseUnquotedJSON ''messageId: abc-123, signatureVersion: "1", timestamp: "2023-06-15T12:00:00Z", type: Notification, message: hello''
     = Inr ''"messageId": "abc-123", "signatureVersion": 1, "timestamp": "2023-06-15T12:00:00Z", "type": "Notification", "message": "hello"''
   \<and> process_item lib ''{sns: {messageId: abc-123, signatureVersion: "1", timestamp: "2023-06-15T12:00:00Z", type: Notification, message: hello}}''
     = (case FormatFloat32 lib (zero32 lib) of
          None \<Rightarrow> Put []
        | Some v \<Rightarrow>
            Put (''{"sns":{"messageAttributes":null,"signingCertUrl":"","messageId":"abc-123","message":"hello","unsubscribeUrl":"","type":"Notification","signatureVersion":1,"signature":"","timestamp":1686830400000,"topicArn":""},"eventVersion":''
                 @ v @ '',"eventSource":"","eventSubscriptionArn":""}''))\<close>
  by (simp add: normalize_flat process_item_def normalize_wrapped json_Unmarshal_def parse_wrapped
      store_snsEvent_def snsEvent_member_sns [OF find_field_sns] snsEvent_zero_def store_wrapped
      json_Marshal_def encode_wrapped appendString_empty split: option.splits)

text \<open>
  The flat text itself, once normalized, is a string followed by a colon and not a JSON
  document: decoding fails and the program stops before it encodes anything.
\<close>

theorem end_to_end_flat_text_stops:
  \<open>\<forall>lib :: unit float32_lib.
     process_item lib ''messageId: abc-123, signatureVersion: "1", timestamp: "2023-06-15T12:00:00Z", type: Notification, message: hello''
       = Exit ''Unable to unmarshal contents of item''\<close>
  by (simp add: process_item_def normalize_flat json_Unmarshal_def parse_flat)

end
